theory Spec2Isabelle
  imports Complex_Main "HOL-Library.Sublist"
begin

section \<open>Data model\<close>

text \<open>
  The session record of the application (\<^verbatim>\<open>interface StudySession\<close>). The field
  \<^verbatim>\<open>id\<close> is called \<open>sid\<close> here. \<open>startTime\<close> holds the instant the ISO string
  of the source parses to, in milliseconds since the epoch (what \<^verbatim>\<open>new Date(s.startTime).getTime()\<close>
  returns); sessions are created by the application with \<^verbatim>\<open>toISOString()\<close>, so the
  string always parses. \<open>duration\<close> is in minutes.
\<close>

datatype difficulty = Easy | Medium | Hard

record StudySession =
  sid :: string
  subject :: string
  topic :: string
  duration :: int
  startTime :: int
  completed :: bool
  difficulty :: difficulty
  description :: "string option"
  goals :: "string list option"

record Goals =
  dailyMinutes :: int
  weeklyMinutes :: int
  weeklySessions :: int

text \<open>
  A sample session, the first one the application starts with (\<^verbatim>\<open>App.tsx\<close>), with a
  fixed start instant (2026-01-05 10:00:00 UTC).
\<close>

definition calculus :: StudySession where
  "calculus =
     \<lparr>sid = ''1'', subject = ''Mathematics'', topic = ''Calculus - Derivatives'',
      duration = 60, startTime = 1767607200000, completed = False, difficulty = Hard,
      description = Some ''Practice derivative problems and review chain rule'',
      goals = Some [''Solve 10 derivative problems'', ''Review chain rule examples'']\<rparr>"

section \<open>The study timer (\<^verbatim>\<open>StudyTimer\<close>)\<close>

datatype TimerMode = Study | Break
datatype TimerState = Idle | Running | Paused | Completed
datatype TimerType = Custom | Pomodoro

text \<open>
  The two host callbacks. The component's only outward effect is calling them, so the
  model keeps the calls made so far in the field \<open>calls\<close>, oldest first.
\<close>

datatype callback = OnComplete string | OnClose

record Timer =
  timerType :: TimerType
  mode :: TimerMode
  state :: TimerState
  timeLeft :: int
  totalTime :: int
  pomodoroCount :: nat
  calls :: "callback list"

text \<open>The \<^verbatim>\<open>useState\<close> initial values.\<close>

definition initTimer :: "StudySession \<Rightarrow> Timer" where
  "initTimer session =
     \<lparr>timerType = Custom, mode = Study, state = Idle,
      timeLeft = duration session * 60, totalTime = duration session * 60,
      pomodoroCount = 0, calls = []\<rparr>"

definition pomodoroStudyDuration :: int where
  "pomodoroStudyDuration = 25 * 60"

text \<open>
  \<^verbatim>\<open>breakDuration\<close> is computed at render time from the \<^verbatim>\<open>pomodoroCount\<close> of that
  render; a handler that reads it sees the value for the count before its own update.
\<close>

definition breakDuration :: "nat \<Rightarrow> int" where
  "breakDuration pc = (if pc > 0 \<and> (pc + 1) mod 4 = 0 then 15 * 60 else 5 * 60)"

definition studyTime :: "StudySession \<Rightarrow> TimerType \<Rightarrow> int" where
  "studyTime session ty =
     (if ty = Pomodoro then pomodoroStudyDuration else duration session * 60)"

text \<open>
  The interval callback. It runs \<^verbatim>\<open>setTimeLeft(prev => ...)\<close>. In break mode, when
  the count reaches zero, the updater itself calls \<^verbatim>\<open>setTimeLeft(study duration)\<close> and
  then returns \<open>0\<close>: two writes to the same state variable are queued, and which one is
  applied last is decided by the UI library, not by this source. \<open>writeOrder\<close> names
  the two outcomes.
\<close>

datatype writeOrder = NestedLast | ReturnLast

definition tick :: "writeOrder \<Rightarrow> StudySession \<Rightarrow> Timer \<Rightarrow> Timer" where
  "tick ord session s =
     (if timeLeft s \<le> 1 then
        (if mode s = Study then s\<lparr>state := Completed, timeLeft := 0\<rparr>
         else s\<lparr>mode := Study, state := Idle,
                timeLeft := (if ord = NestedLast then studyTime session (timerType s) else 0),
                totalTime := studyTime session (timerType s)\<rparr>)
      else s\<lparr>timeLeft := timeLeft s - 1\<rparr>)"

definition handleStart :: "Timer \<Rightarrow> Timer" where
  "handleStart s = s\<lparr>state := Running\<rparr>"

definition handlePause :: "Timer \<Rightarrow> Timer" where
  "handlePause s = s\<lparr>state := Paused\<rparr>"

definition handleReset :: "StudySession \<Rightarrow> Timer \<Rightarrow> Timer" where
  "handleReset session s =
     (if mode s = Study then
        s\<lparr>state := Idle, timeLeft := studyTime session (timerType s),
          totalTime := studyTime session (timerType s)\<rparr>
      else
        s\<lparr>state := Idle, timeLeft := breakDuration (pomodoroCount s),
          totalTime := breakDuration (pomodoroCount s)\<rparr>)"

definition handleStop :: "StudySession \<Rightarrow> Timer \<Rightarrow> Timer" where
  "handleStop session s =
     s\<lparr>state := Idle, mode := Study, timeLeft := studyTime session (timerType s),
       totalTime := studyTime session (timerType s)\<rparr>"

definition handleTimerTypeChange :: "StudySession \<Rightarrow> TimerType \<Rightarrow> Timer \<Rightarrow> Timer" where
  "handleTimerTypeChange session ty s =
     (if state s \<noteq> Idle then s
      else s\<lparr>timerType := ty, pomodoroCount := 0,
             timeLeft := studyTime session ty, totalTime := studyTime session ty\<rparr>)"

definition handleComplete :: "StudySession \<Rightarrow> Timer \<Rightarrow> Timer" where
  "handleComplete session s = s\<lparr>calls := calls s @ [OnComplete (sid session), OnClose]\<rparr>"

definition startBreak :: "Timer \<Rightarrow> Timer" where
  "startBreak s =
     s\<lparr>pomodoroCount := pomodoroCount s + 1, mode := Break,
       timeLeft := breakDuration (pomodoroCount s),
       totalTime := breakDuration (pomodoroCount s), state := Running\<rparr>"

definition skipBreak :: "StudySession \<Rightarrow> Timer \<Rightarrow> Timer" where
  "skipBreak session s =
     s\<lparr>mode := Study, timeLeft := studyTime session (timerType s),
       totalTime := studyTime session (timerType s), state := Idle\<rparr>"

definition handleClose :: "Timer \<Rightarrow> Timer" where
  "handleClose s = s\<lparr>calls := calls s @ [OnClose]\<rparr>"

text \<open>
  The events of the component, and when each can happen: a button can be pressed only
  in a render that shows it, and the interval exists only while the timer is running
  with time left (the guard of the effect).
\<close>

datatype event =
  Tick writeOrder | Start | Pause | Reset | Stop | SelectType TimerType
  | StartBreak | SkipBreak | MarkComplete | Close

fun rendered :: "event \<Rightarrow> Timer \<Rightarrow> bool" where
  "rendered (Tick ord) s = (state s = Running \<and> timeLeft s > 0)"
| "rendered Start s = (state s = Idle \<or> state s = Paused)"
| "rendered Pause s = (state s = Running)"
| "rendered Reset s = (state s = Paused)"
| "rendered Stop s = (state s = Running \<or> state s = Paused)"
| "rendered (SelectType ty) s = (mode s = Study \<and> state s = Idle)"
| "rendered StartBreak s = (state s = Completed \<and> mode s = Study)"
| "rendered SkipBreak s = (state s = Completed \<and> mode s = Study)"
| "rendered MarkComplete s = (state s = Completed \<and> mode s = Study)"
| "rendered Close s = True"

fun handler :: "StudySession \<Rightarrow> event \<Rightarrow> Timer \<Rightarrow> Timer" where
  "handler session (Tick ord) s = tick ord session s"
| "handler session Start s = handleStart s"
| "handler session Pause s = handlePause s"
| "handler session Reset s = handleReset session s"
| "handler session Stop s = handleStop session s"
| "handler session (SelectType ty) s = handleTimerTypeChange session ty s"
| "handler session StartBreak s = startBreak s"
| "handler session SkipBreak s = skipBreak session s"
| "handler session MarkComplete s = handleComplete session s"
| "handler session Close s = handleClose s"

definition fire :: "StudySession \<Rightarrow> event \<Rightarrow> Timer \<Rightarrow> Timer" where
  "fire session e s = (if rendered e s then handler session e s else s)"

fun run :: "StudySession \<Rightarrow> event list \<Rightarrow> Timer \<Rightarrow> Timer" where
  "run session [] s = s"
| "run session (e # es) s = run session es (fire session e s)"

fun ticks :: "writeOrder \<Rightarrow> StudySession \<Rightarrow> nat \<Rightarrow> Timer \<Rightarrow> Timer" where
  "ticks ord session 0 s = s"
| "ticks ord session (Suc n) s = ticks ord session n (fire session (Tick ord) s)"

section \<open>Goals and streaks (\<^verbatim>\<open>GoalsAndStreaks\<close>)\<close>

text \<open>
  Local time. The source reads the browser's clock and time zone through \<^verbatim>\<open>Date\<close>.
  The current instant \<open>now\<close> is a parameter, and so is the zone: a \<open>zone\<close> holds the
  four operations on instants (milliseconds since the epoch) that the component uses.
  \<^item> \<open>startOfDay z t\<close> is \<^verbatim>\<open>d.setHours(0, 0, 0, 0); d.getTime()\<close>: the instant of the
    local midnight that starts the local day of \<open>t\<close>;
  \<^item> \<open>toDateString z t\<close> stands for the string \<^verbatim>\<open>d.toDateString()\<close>, which names the
    local calendar day: it is a number of that day;
  \<^item> \<open>getDay z t\<close> is the local day of the week, Sunday \<open>0\<close>;
  \<^item> \<open>minusDays z t n\<close> is \<^verbatim>\<open>d.setDate(d.getDate() - n); d.getTime()\<close>: the instant
    \<open>n\<close> calendar days before \<open>t\<close>, at the same local time of day.
  Nothing is assumed of a zone in the functions of the component: under daylight
  saving, two local midnights may be 23 or 25 hours apart.
\<close>

record zone =
  startOfDay :: "int \<Rightarrow> int"
  toDateString :: "int \<Rightarrow> int"
  getDay :: "int \<Rightarrow> int"
  minusDays :: "int \<Rightarrow> int \<Rightarrow> int"

definition msPerDay :: int where
  "msPerDay = 86400000"

text \<open>
  A zone at a fixed offset \<open>tz\<close> (milliseconds east of UTC), without daylight saving:
  days are \<open>msPerDay\<close> long, and 1970-01-01 was a Thursday. \<open>utc\<close> is the zone of the
  examples.
\<close>

definition fixedZone :: "int \<Rightarrow> zone" where
  "fixedZone tz =
     \<lparr>startOfDay = (\<lambda>t. ((t + tz) div msPerDay) * msPerDay - tz),
      toDateString = (\<lambda>t. (t + tz) div msPerDay),
      getDay = (\<lambda>t. ((t + tz) div msPerDay + 4) mod 7),
      minusDays = (\<lambda>t n. t - n * msPerDay)\<rparr>"

definition utc :: zone where
  "utc = fixedZone 0"

text \<open>
  \<^verbatim>\<open>[...new Set(sessions.filter(s => s.completed).map(...))]\<close>: the distinct local
  midnights of the completed sessions. Both callers sort the result at once.
\<close>

definition completedDates :: "zone \<Rightarrow> StudySession list \<Rightarrow> int list" where
  "completedDates z ss = remdups (map (\<lambda>s. startOfDay z (startTime s)) (filter completed ss))"

text \<open>The \<^verbatim>\<open>for (const date of completedDates)\<close> loop of \<^verbatim>\<open>calculateStreak\<close>.\<close>

fun streakLoop :: "int \<Rightarrow> nat \<Rightarrow> int list \<Rightarrow> nat" where
  "streakLoop checkDate streak [] = streak"
| "streakLoop checkDate streak (date # dates) =
     (if date = checkDate \<or> date = checkDate - 86400000
      then streakLoop (date - 86400000) (streak + 1) dates
      else streak)"

definition calculateStreak :: "zone \<Rightarrow> int \<Rightarrow> StudySession list \<Rightarrow> nat" where
  "calculateStreak z now ss =
     (let today = startOfDay z now;
          dates = rev (sort (completedDates z ss))
      in if length dates = 0 then 0 else streakLoop today 0 dates)"

text \<open>
  The index loop of \<^verbatim>\<open>calculateLongestStreak\<close>; \<open>prev\<close> is \<^verbatim>\<open>completedDates[i - 1]\<close>.
\<close>

fun longestLoop :: "int \<Rightarrow> nat \<Rightarrow> nat \<Rightarrow> int list \<Rightarrow> nat" where
  "longestLoop prev maxStreak currentStreak [] = maxStreak"
| "longestLoop prev maxStreak currentStreak (date # dates) =
     (if date = prev + 86400000
      then longestLoop date (max maxStreak (currentStreak + 1)) (currentStreak + 1) dates
      else longestLoop date maxStreak 1 dates)"

definition calculateLongestStreak :: "zone \<Rightarrow> StudySession list \<Rightarrow> nat" where
  "calculateLongestStreak z ss =
     (case sort (completedDates z ss) of
        [] \<Rightarrow> 0
      | first # dates \<Rightarrow> longestLoop first 1 1 dates)"

record progress =
  current :: int
  target :: int

record weekProgress =
  minutes :: progress
  sessions :: progress

definition getTodayProgress :: "zone \<Rightarrow> int \<Rightarrow> Goals \<Rightarrow> StudySession list \<Rightarrow> progress" where
  "getTodayProgress z now g ss =
     (let today = toDateString z now;
          todayMinutes =
            foldl (\<lambda>acc s. acc + duration s) 0
              (filter (\<lambda>s. completed s \<and> toDateString z (startTime s) = today) ss)
      in \<lparr>current = todayMinutes, target = dailyMinutes g\<rparr>)"

text \<open>
  \<^verbatim>\<open>startOfWeek.setDate(now.getDate() - now.getDay())\<close> moves back to the Sunday at the
  same time of day, \<^verbatim>\<open>setHours(0, 0, 0, 0)\<close> then to its midnight.
\<close>

definition startOfWeek :: "zone \<Rightarrow> int \<Rightarrow> int" where
  "startOfWeek z now = startOfDay z (minusDays z now (getDay z now))"

definition getWeekProgress :: "zone \<Rightarrow> int \<Rightarrow> Goals \<Rightarrow> StudySession list \<Rightarrow> weekProgress" where
  "getWeekProgress z now g ss =
     (let weekSessions = filter (\<lambda>s. completed s \<and> startTime s \<ge> startOfWeek z now) ss;
          mins = foldl (\<lambda>acc s. acc + duration s) 0 weekSessions;
          sessionCount = int (length weekSessions)
      in \<lparr>minutes = \<lparr>current = mins, target = weeklyMinutes g\<rparr>,
          sessions = \<lparr>current = sessionCount, target = weeklySessions g\<rparr>\<rparr>)"

text \<open>
  The percentages are computed in the markup as
  \<^verbatim>\<open>Math.round((p.current / p.target) * 100)\<close> (label) and
  \<^verbatim>\<open>(p.current / p.target) * 100\<close> (progress bar). A JavaScript number is a finite
  value, an infinity or \<open>NaN\<close>; division by zero raises nothing and yields one of the
  last three. A finite quotient or product is the exact result rounded to a number of
  the language (or to an infinity when it is out of range); that rounding belongs to
  the language and is the parameter \<open>toNumber\<close>. \<^verbatim>\<open>Math.round\<close> is exact: the nearest
  whole number, a tie going up. The sign of zero is not modelled.
\<close>

datatype jsnum = Finite rat | PosInfinity | NegInfinity | NaN

definition jsDivide :: "(rat \<Rightarrow> jsnum) \<Rightarrow> int \<Rightarrow> int \<Rightarrow> jsnum" where
  "jsDivide toNumber a b =
     (if b = 0 then (if a = 0 then NaN else if a > 0 then PosInfinity else NegInfinity)
      else toNumber (of_int a / of_int b))"

definition jsTimes100 :: "(rat \<Rightarrow> jsnum) \<Rightarrow> jsnum \<Rightarrow> jsnum" where
  "jsTimes100 toNumber x = (case x of Finite q \<Rightarrow> toNumber (q * 100) | other \<Rightarrow> other)"

definition mathRound :: "jsnum \<Rightarrow> jsnum" where
  "mathRound x = (case x of Finite q \<Rightarrow> Finite (of_int \<lfloor>q + 1 / 2\<rfloor>) | other \<Rightarrow> other)"

definition percentValue :: "(rat \<Rightarrow> jsnum) \<Rightarrow> progress \<Rightarrow> jsnum" where
  "percentValue toNumber p = jsTimes100 toNumber (jsDivide toNumber (current p) (target p))"

definition percentLabel :: "(rat \<Rightarrow> jsnum) \<Rightarrow> progress \<Rightarrow> jsnum" where
  "percentLabel toNumber p = mathRound (percentValue toNumber p)"

text \<open>
  The streak as the specification words it, for comparison with \<open>calculateStreak\<close>:
  the number of consecutive calendar days, counted backwards from today if a session
  was completed today and from yesterday otherwise, on each of which a session was
  completed. \<open>runBack z n dates d\<close> counts at most \<open>n\<close> such days from the day that
  starts at \<open>d\<close> backwards; the day before starts at the midnight of the instant just
  before \<open>d\<close>.
\<close>

fun runBack :: "zone \<Rightarrow> nat \<Rightarrow> int list \<Rightarrow> int \<Rightarrow> nat" where
  "runBack z 0 dates d = 0"
| "runBack z (Suc n) dates d =
     (if d \<in> set dates then Suc (runBack z n dates (startOfDay z (d - 1))) else 0)"

definition specStreak :: "zone \<Rightarrow> int \<Rightarrow> StudySession list \<Rightarrow> nat" where
  "specStreak z now ss =
     (let today = startOfDay z now;
          dates = completedDates z ss
      in if today \<in> set dates then runBack z (length dates) dates today
         else runBack z (length dates) dates (startOfDay z (today - 1)))"

section \<open>Calendar export (\<^verbatim>\<open>calendarExport.ts\<close>)\<close>

definition newline :: string where
  "newline = [CHR 0x0A]"

definition backslash :: string where
  "backslash = [CHR 0x5C]"

text \<open>\<^verbatim>\<open>parts.join(sep)\<close>.\<close>

fun join :: "string \<Rightarrow> string list \<Rightarrow> string" where
  "join sep [] = []"
| "join sep [x] = x"
| "join sep (x # y # ys) = x @ sep @ join sep (y # ys)"

text \<open>\<^verbatim>\<open>text.replace(/c/g, r)\<close> for a single character \<open>c\<close>.\<close>

definition replaceAll :: "char \<Rightarrow> string \<Rightarrow> string \<Rightarrow> string" where
  "replaceAll c r text = concat (map (\<lambda>x. if x = c then r else [x]) text)"

definition escapeText :: "string \<Rightarrow> string" where
  "escapeText text =
     replaceAll (CHR 0x0A) (backslash @ ''n'')
       (replaceAll (CHR '','') (backslash @ '','')
         (replaceAll (CHR '';'') (backslash @ '';'')
           (replaceAll (CHR 0x5C) (backslash @ backslash) text)))"

text \<open>
  A \<^verbatim>\<open>Date\<close> holds an instant of at most 8640000000000000 milliseconds either side of
  the epoch; beyond that it is invalid, and \<^verbatim>\<open>toISOString\<close> throws a \<^verbatim>\<open>RangeError\<close>.
\<close>

datatype jsError = RangeError

definition validDate :: "int \<Rightarrow> bool" where
  "validDate t = (- 8640000000000000 \<le> t \<and> t \<le> 8640000000000000)"

text \<open>
  \<^verbatim>\<open>date.toISOString().replace(/[-:]/g, '').split('.')[0] + 'Z'\<close>. The rendering
  of a valid instant as ISO text belongs to the language runtime and is the parameter
  \<open>toISOString\<close>.
\<close>

definition formatDate :: "(int \<Rightarrow> string) \<Rightarrow> int \<Rightarrow> jsError + string" where
  "formatDate toISOString date =
     (if validDate date
      then Inr (takeWhile (\<lambda>c. c \<noteq> CHR ''.'')
             (filter (\<lambda>c. c \<noteq> CHR ''-'' \<and> c \<noteq> CHR '':'') (toISOString date)) @ ''Z'')
      else Inl RangeError)"

fun difficultyText :: "difficulty \<Rightarrow> string" where
  "difficultyText Easy = ''easy''"
| "difficultyText Medium = ''medium''"
| "difficultyText Hard = ''hard''"

text \<open>The text built in the variable \<^verbatim>\<open>description\<close> of \<^verbatim>\<open>generateEvent\<close>.\<close>

definition eventDescription :: "StudySession \<Rightarrow> string" where
  "eventDescription session =
     (let d0 = ''Study session: '' @ topic session;
          d1 = (case description session of
                  None \<Rightarrow> d0
                | Some text \<Rightarrow>
                    if text \<noteq> [] then d0 @ backslash @ ''n'' @ backslash @ ''n'' @ escapeText text
                    else d0);
          d2 = (case goals session of
                  None \<Rightarrow> d1
                | Some gs \<Rightarrow>
                    if length gs > 0
                    then d1 @ backslash @ ''n'' @ backslash @ ''nGoals:'' @ backslash @ ''n''
                         @ join (backslash @ ''n'') (map (\<lambda>g. ''- '' @ escapeText g) gs)
                    else d1)
      in d2 @ backslash @ ''n'' @ backslash @ ''nDifficulty: '' @ difficultyText (difficulty session))"

text \<open>
  The lines of the template of \<^verbatim>\<open>generateEvent\<close>, in order; \<open>now\<close> is the instant of
  \<^verbatim>\<open>new Date()\<close>. The three dates are formatted in the order of the template, and the
  first that is invalid ends the function with its error.
\<close>

definition eventLines :: "(int \<Rightarrow> string) \<Rightarrow> int \<Rightarrow> StudySession \<Rightarrow> jsError + string list" where
  "eventLines toISOString now session =
     (let startDate = startTime session;
          endDate = startDate + duration session * 60000
      in case formatDate toISOString now of
           Inl e \<Rightarrow> Inl e
         | Inr stamp \<Rightarrow>
        (case formatDate toISOString startDate of
           Inl e \<Rightarrow> Inl e
         | Inr dtstart \<Rightarrow>
        (case formatDate toISOString endDate of
           Inl e \<Rightarrow> Inl e
         | Inr dtend \<Rightarrow>
             Inr [''BEGIN:VEVENT'',
                  ''UID:'' @ sid session @ ''@studysmart.app'',
                  ''DTSTAMP:'' @ stamp,
                  ''DTSTART:'' @ dtstart,
                  ''DTEND:'' @ dtend,
                  ''SUMMARY:'' @ escapeText (subject session @ '': '' @ topic session),
                  ''DESCRIPTION:'' @ eventDescription session,
                  ''STATUS:'' @ (if completed session then ''CONFIRMED'' else ''TENTATIVE''),
                  ''CATEGORIES:Study,'' @ subject session @ '','' @ difficultyText (difficulty session),
                  ''BEGIN:VALARM'',
                  ''TRIGGER:-PT15M'',
                  ''DESCRIPTION:Study session starting in 15 minutes'',
                  ''ACTION:DISPLAY'',
                  ''END:VALARM'',
                  ''END:VEVENT''])))"

definition generateEvent :: "(int \<Rightarrow> string) \<Rightarrow> int \<Rightarrow> StudySession \<Rightarrow> jsError + string" where
  "generateEvent toISOString now session =
     (case eventLines toISOString now session of
        Inl e \<Rightarrow> Inl e
      | Inr ls \<Rightarrow> Inr (join newline ls))"

text \<open>\<^verbatim>\<open>sessions.map(session => generateEvent(session))\<close>: the first error ends the map.\<close>

fun generateEvents :: "(int \<Rightarrow> string) \<Rightarrow> int \<Rightarrow> StudySession list \<Rightarrow> jsError + string list" where
  "generateEvents toISOString now [] = Inr []"
| "generateEvents toISOString now (session # ss) =
     (case generateEvent toISOString now session of
        Inl e \<Rightarrow> Inl e
      | Inr ev \<Rightarrow>
          (case generateEvents toISOString now ss of
             Inl e \<Rightarrow> Inl e
           | Inr evs \<Rightarrow> Inr (ev # evs)))"

definition generateICSContent :: "(int \<Rightarrow> string) \<Rightarrow> int \<Rightarrow> StudySession list \<Rightarrow> jsError + string" where
  "generateICSContent toISOString now ss =
     (case generateEvents toISOString now ss of
        Inl e \<Rightarrow> Inl e
      | Inr evs \<Rightarrow>
          Inr (join newline
                 [''BEGIN:VCALENDAR'',
                  ''VERSION:2.0'',
                  ''PRODID:-//StudySmart//Study Scheduler//EN'',
                  ''CALSCALE:GREGORIAN'',
                  ''METHOD:PUBLISH'',
                  join newline evs,
                  ''END:VCALENDAR'']))"

section \<open>Study plan generator (\<^verbatim>\<open>generateCSStudyPlan\<close>)\<close>

text \<open>The table \<^verbatim>\<open>csTopics\<close>, its entries in the order of the source.\<close>

definition csTopics :: "(string \<times> string list) list" where
  "csTopics = [
    (''data structures'',
      [''Arrays and Strings - Basic operations and common algorithms'',
       ''Linked Lists - Single, Double, and Circular implementations'',
       ''Stacks and Queues - Implementation and applications'',
       ''Trees - Binary Trees, BST, AVL Trees'',
       ''Heaps - Min Heap, Max Heap, Priority Queue'',
       ''Hash Tables - Hash functions and collision resolution'',
       ''Graphs - Representations and traversal algorithms (BFS, DFS)'',
       ''Advanced Trees - B-Trees, Red-Black Trees, Tries'',
       ''Sorting Algorithms - Quick Sort, Merge Sort, Heap Sort'',
       ''Searching Algorithms - Binary Search variations'',
       ''Dynamic Programming - Common patterns'',
       ''Greedy Algorithms - Problem-solving techniques'',
       ''Graph Algorithms - Dijkstra, Bellman-Ford, MST'',
       ''String Algorithms - KMP, Rabin-Karp'']),
    (''algorithms'',
      [''Algorithm Complexity - Big O notation and analysis'',
       ''Recursion - Base cases and recursive thinking'',
       ''Divide and Conquer - Merge Sort, Quick Sort'',
       ''Dynamic Programming Basics - Memoization vs Tabulation'',
       ''Greedy Algorithms - Activity Selection, Huffman Coding'',
       ''Backtracking - N-Queens, Sudoku Solver'',
       ''Graph Traversal - BFS and DFS applications'',
       ''Shortest Path - Dijkstra and Bellman-Ford'',
       ''Minimum Spanning Tree - Kruskal and Prim algorithms'',
       ''String Matching - KMP, Boyer-Moore'',
       ''Advanced DP - Knapsack, LCS, Edit Distance'',
       ''Network Flow - Max Flow, Min Cut'',
       ''NP-Complete Problems - Understanding complexity classes'',
       ''Approximation Algorithms - Practical solutions'']),
    (''operating systems'',
      [''OS Fundamentals - Components and architecture'',
       ''Process Management - States, PCB, Context Switching'',
       ''CPU Scheduling - FCFS, SJF, Round Robin, Priority'',
       ''Process Synchronization - Critical Section Problem'',
       ''Deadlocks - Detection, Prevention, Avoidance'',
       ''Memory Management - Contiguous and Paging'',
       ''Virtual Memory - Demand Paging, Page Replacement'',
       ''File Systems - Structure and Implementation'',
       ''I/O Systems - Device Management'',
       ''Threading - User vs Kernel threads'',
       ''Concurrency Control - Semaphores, Monitors, Mutexes'',
       ''Disk Management - Scheduling algorithms'',
       ''Security and Protection - Access control'',
       ''Case Studies - Linux, Windows internals'']),
    (''database'',
      [''DBMS Fundamentals - Data Models and Architecture'',
       ''Relational Model - Relations, Keys, Integrity'',
       ''SQL Basics - DDL, DML, DCL commands'',
       ''Advanced SQL - Joins, Subqueries, Views'',
       ''Normalization - 1NF, 2NF, 3NF, BCNF'',
       ''Transaction Management - ACID properties'',
       ''Concurrency Control - Locking protocols'',
       ''Recovery Techniques - Log-based recovery'',
       ''Indexing - B+ Trees, Hash Indexing'',
       ''Query Optimization - Query processing'',
       ''NoSQL Databases - Document, Key-Value stores'',
       ''Database Security - Access control, SQL injection'',
       ''Distributed Databases - CAP theorem'',
       ''Database Design - ER Diagrams, Schema design'']),
    (''computer networks'',
      [''Network Fundamentals - OSI and TCP/IP models'',
       ''Physical Layer - Transmission media, encoding'',
       ''Data Link Layer - Framing, Error detection'',
       ''MAC Protocols - ALOHA, CSMA/CD, CSMA/CA'',
       ''Network Layer - IPv4, IPv6, Subnetting'',
       ''Routing Algorithms - Distance Vector, Link State'',
       ''Transport Layer - TCP and UDP'',
       ''Flow Control - Sliding Window protocols'',
       ''Congestion Control - TCP congestion algorithms'',
       ''Application Layer - HTTP, DNS, SMTP, FTP'',
       ''Network Security - Cryptography basics'',
       ''Wireless Networks - WiFi, Mobile networks'',
       ''Network Management - SNMP, Performance'',
       ''Modern Protocols - HTTP/2, WebSockets, QUIC'']),
    (''machine learning'',
      [''ML Fundamentals - Types of learning, workflow'',
       ''Linear Regression - Theory and implementation'',
       ''Logistic Regression - Binary classification'',
       ''Decision Trees - Construction and pruning'',
       ''Random Forests - Ensemble learning'',
       ''Support Vector Machines - Kernel methods'',
       ''Neural Networks - Backpropagation'',
       ''Deep Learning - CNNs for image processing'',
       ''Recurrent Networks - RNNs, LSTMs for sequences'',
       ''Unsupervised Learning - K-means, Hierarchical'',
       ''Dimensionality Reduction - PCA, t-SNE'',
       ''Model Evaluation - Cross-validation, metrics'',
       ''Regularization - L1, L2, Dropout'',
       ''Advanced Topics - Transfer Learning, GANs'']),
    (''web development'',
      [''HTML Fundamentals - Semantic markup, forms'',
       ''CSS Basics - Selectors, Box model, Flexbox'',
       ''CSS Grid - Layout techniques'',
       ''JavaScript Fundamentals - ES6+ features'',
       ''DOM Manipulation - Events and handlers'',
       ''Async JavaScript - Promises, Async/Await'',
       ''React Basics - Components, Props, State'',
       ''React Hooks - useState, useEffect, custom hooks'',
       ''State Management - Context API, Redux'',
       ''Backend Basics - Node.js, Express'',
       ''RESTful APIs - Design and implementation'',
       ''Database Integration - SQL and NoSQL'',
       ''Authentication - JWT, OAuth'',
       ''Deployment - CI/CD, Docker basics'']),
    (''python'',
      [''Python Basics - Syntax, data types, operators'',
       ''Control Flow - If/else, loops, functions'',
       ''Data Structures - Lists, tuples, dictionaries, sets'',
       ''Object-Oriented Programming - Classes, inheritance'',
       ''File Handling - Reading/writing files'',
       ''Exception Handling - Try/except blocks'',
       ''Modules and Packages - Imports, pip'',
       ''List Comprehensions - Advanced syntax'',
       ''Lambda Functions - Functional programming'',
       ''Decorators - Function wrappers'',
       ''Generators - Yield and iterators'',
       ''Multithreading - Concurrent execution'',
       ''Regular Expressions - Pattern matching'',
       ''Popular Libraries - NumPy, Pandas basics'']),
    (''java'',
      [''Java Basics - Syntax, data types, operators'',
       ''OOP Fundamentals - Classes, objects, methods'',
       ''Inheritance - Extends, super, method overriding'',
       ''Polymorphism - Method overloading, interfaces'',
       ''Abstraction - Abstract classes, interfaces'',
       ''Encapsulation - Access modifiers, getters/setters'',
       ''Exception Handling - Try-catch-finally'',
       ''Collections Framework - List, Set, Map'',
       ''Generics - Type parameters'',
       ''Multithreading - Thread class, Runnable'',
       ''File I/O - Streams, readers, writers'',
       ''JDBC - Database connectivity'',
       ''Java 8 Features - Lambda, Stream API'',
       ''Spring Framework - Dependency Injection basics'']),
    (''c++'',
      [''C++ Basics - Syntax, data types, I/O'',
       ''Functions - Declaration, definition, overloading'',
       ''Pointers - Memory addresses, pointer arithmetic'',
       ''References - Pass by reference'',
       ''Classes and Objects - Constructors, destructors'',
       ''Inheritance - Single, multiple, multilevel'',
       ''Polymorphism - Virtual functions, abstract classes'',
       ''Operator Overloading - Custom operators'',
       ''Templates - Function and class templates'',
       ''STL Containers - Vector, list, map, set'',
       ''STL Algorithms - Sort, find, transform'',
       ''Exception Handling - Try-catch blocks'',
       ''File Handling - Streams and file operations'',
       ''Smart Pointers - unique_ptr, shared_ptr''])]"

text \<open>The list used when no key of the table matches; it quotes the subject as given.\<close>

definition genericTopics :: "string \<Rightarrow> string list" where
  "genericTopics subj = [
     subj @ '' - Introduction and fundamentals'',
     subj @ '' - Core concepts and terminology'',
     subj @ '' - Basic operations and techniques'',
     subj @ '' - Intermediate topics and patterns'',
     subj @ '' - Advanced concepts'',
     subj @ '' - Problem-solving strategies'',
     subj @ '' - Best practices and optimization'',
     subj @ '' - Real-world applications'',
     subj @ '' - Common pitfalls and debugging'',
     subj @ '' - Testing and validation'',
     subj @ '' - Performance considerations'',
     subj @ '' - Integration with other technologies'',
     subj @ '' - Case studies and examples'',
     subj @ '' - Review and practice problems'']"

text \<open>\<^verbatim>\<open>s.includes(k)\<close>: \<open>k\<close> occurs in \<open>s\<close> as a contiguous piece.\<close>

fun includesStr :: "string \<Rightarrow> string \<Rightarrow> bool" where
  "includesStr [] k = (k = [])"
| "includesStr (c # cs) k = (take (length k) (c # cs) = k \<or> includesStr cs k)"

text \<open>
  The search loop and the fallback. \<^verbatim>\<open>subject.toLowerCase()\<close> is the language's own
  case mapping and is the parameter \<open>toLowerCase\<close>.
\<close>

definition selectTopics :: "(string \<Rightarrow> string) \<Rightarrow> string \<Rightarrow> string list" where
  "selectTopics toLowerCase subj =
     (let subjectLower = toLowerCase subj;
          found = (case find (\<lambda>(key, value). includesStr subjectLower key \<or> includesStr key subjectLower)
                          csTopics of
                     None \<Rightarrow> []
                   | Some (key, value) \<Rightarrow> value)
      in if length found = 0 then genericTopics subj else found)"

record planDay =
  day :: int
  topics :: "string list"
  focus :: string

text \<open>\<^verbatim>\<open>xs.slice(i, j)\<close> for indices \<open>0 \<le> i\<close> and \<open>0 \<le> j\<close>, as they are in the loop.\<close>

definition slice :: "'a list \<Rightarrow> int \<Rightarrow> int \<Rightarrow> 'a list" where
  "slice xs i j = take (nat (j - i)) (drop (nat i) xs)"

definition focusOf :: "int \<Rightarrow> int \<Rightarrow> string" where
  "focusOf days d =
     (if d = 1 then ''Foundation''
      else if d = days then ''Review & Practice''
      else if d \<le> (days + 1) div 2 then ''Building Knowledge''
      else ''Advanced Concepts'')"

text \<open>
  \<^verbatim>\<open>day++\<close> on the loop counter. The counter is a number of the language (a double):
  below \<open>2 ^ 53\<close> adding one is exact, and at \<open>2 ^ 53\<close> the sum rounds back to
  \<open>2 ^ 53\<close>, so the counter, which starts at 1, stays there.
\<close>

definition maxCounter :: int where
  "maxCounter = 9007199254740992"

definition increment :: "int \<Rightarrow> int" where
  "increment d = (if d < maxCounter then d + 1 else d)"

text \<open>The entry that the body of the loop pushes for day \<open>d\<close>, if any.\<close>

definition dayEntry :: "string list \<Rightarrow> int \<Rightarrow> int \<Rightarrow> int \<Rightarrow> planDay list" where
  "dayEntry ts topicsPerDay days d =
     (let startIdx = (d - 1) * topicsPerDay;
          endIdx = min (startIdx + topicsPerDay) (int (length ts));
          dayTopics = slice ts startIdx endIdx
      in if length dayTopics > 0
         then [\<lparr>day = d, topics = dayTopics, focus = focusOf days d\<rparr>]
         else [])"

text \<open>
  The loop \<^verbatim>\<open>for (let day = 1; day <= days; day++)\<close>, from the value \<open>d\<close> of the
  counter on; it yields the entries pushed to \<^verbatim>\<open>plan\<close> from there on, or \<open>None\<close>
  when the loop does not end.
\<close>

partial_function (option) planLoop ::
  "string list \<Rightarrow> int \<Rightarrow> int \<Rightarrow> int \<Rightarrow> planDay list option" where
  "planLoop ts topicsPerDay days d =
     (if d \<le> days then
        Option.bind (planLoop ts topicsPerDay days (increment d))
          (\<lambda>rest. Some (dayEntry ts topicsPerDay days d @ rest))
      else Some [])"

declare planLoop.simps [code]

text \<open>
  \<open>days\<close> is a whole number. \<^verbatim>\<open>Math.ceil(topics.length / days)\<close> is
  \<open>(length ts + days - 1) div days\<close> for \<open>days\<close> from 1 on; for \<open>days\<close> below 1 the
  loop does not run and the quotient is not used. The result is \<open>None\<close> when the
  function does not return.
\<close>

definition generateCSStudyPlan ::
  "(string \<Rightarrow> string) \<Rightarrow> string \<Rightarrow> int \<Rightarrow> planDay list option" where
  "generateCSStudyPlan toLowerCase subj days =
     (let ts = selectTopics toLowerCase subj;
          topicsPerDay = (int (length ts) + days - 1) div days
      in planLoop ts topicsPerDay days 1)"

section \<open>The timer's time invariant and sample data\<close>

definition timeInv :: "Timer \<Rightarrow> bool" where
  "timeInv s = (0 \<le> timeLeft s \<and> timeLeft s \<le> totalTime s)"

text \<open>A one-minute session.\<close>

definition shortSession :: StudySession where
  "shortSession = calculus\<lparr>duration := 1\<rparr>"

text \<open>
  The reference instant of the examples: 2026-01-05 10:00:00 UTC, a Monday. The examples
  use the zone \<open>utc\<close>; the Sunday that starts this week is 2026-01-04 00:00:00,
  instant \<open>1767484800000\<close>. Where an example needs a rounding of finite results it
  takes none (\<open>Finite\<close>); no example depends on it.
\<close>

definition monday :: int where
  "monday = 1767607200000"

text \<open>A completed session that starts at \<open>t\<close> and lasts \<open>d\<close> minutes.\<close>

definition studied :: "int \<Rightarrow> int \<Rightarrow> StudySession" where
  "studied t d = calculus\<lparr>startTime := t, duration := d, completed := True\<rparr>"

text \<open>The goals the application starts with (\<^verbatim>\<open>App.tsx\<close>).\<close>

definition defaultGoals :: Goals where
  "defaultGoals = \<lparr>dailyMinutes = 120, weeklyMinutes = 600, weeklySessions = 10\<rparr>"

text \<open>Goals with every target 0, which the goals dialog accepts.\<close>

definition noGoals :: Goals where
  "noGoals = \<lparr>dailyMinutes = 0, weeklyMinutes = 0, weeklySessions = 0\<rparr>"

text \<open>A session whose labels contain characters that the calendar format reserves.\<close>

definition punctuated :: StudySession where
  "punctuated =
     calculus\<lparr>subject := ''Maths, pure'', topic := ''a,b;c'', description := None, goals := None\<rparr>"

text \<open>A case mapping for the examples: the letters A to Z to lower case.\<close>

definition asciiLower :: "string \<Rightarrow> string" where
  "asciiLower s =
     map (\<lambda>c. let n = (of_char c :: nat) in if 65 \<le> n \<and> n \<le> 90 then char_of (n + 32) else c) s"

section \<open>Properties of the timer\<close>

text \<open>
  C4. Starting a break increments \<open>pomodoroCount\<close> by exactly one, sets the mode to
  break and the state to running, and the break that starts lasts 900 seconds exactly
  when \<open>(pomodoroCount + 1) mod 4 = 0\<close> for the count at the moment the break starts;
  every other break lasts 300 seconds. The button that starts a break is shown after
  a completed study cycle.
\<close>

theorem startBreak_cadence:
  "pomodoroCount (startBreak s) = pomodoroCount s + 1
   \<and> mode (startBreak s) = Break
   \<and> state (startBreak s) = Running
   \<and> timeLeft (startBreak s) = totalTime (startBreak s)
   \<and> totalTime (startBreak s) = (if (pomodoroCount s + 1) mod 4 = 0 then 900 else 300)
   \<and> (state s = Completed \<and> mode s = Study \<longrightarrow> fire session StartBreak s = startBreak s)"
  by (auto simp: startBreak_def breakDuration_def fire_def)

theorem startBreak_cadence_witness:
  "totalTime (startBreak ((initTimer calculus)\<lparr>pomodoroCount := 3, state := Completed\<rparr>)) = 900
   \<and> totalTime (startBreak ((initTimer calculus)\<lparr>pomodoroCount := 4, state := Completed\<rparr>)) = 300
   \<and> pomodoroCount (fire calculus StartBreak ((initTimer calculus)\<lparr>pomodoroCount := 3, state := Completed\<rparr>)) = 4"
  using startBreak_cadence [of "(initTimer calculus)\<lparr>pomodoroCount := 3, state := Completed\<rparr>" calculus]
    startBreak_cadence [of "(initTimer calculus)\<lparr>pomodoroCount := 4, state := Completed\<rparr>" calculus]
  by (simp add: initTimer_def)

subsection \<open>Counting down to completion\<close>

text \<open>While more than \<open>k\<close> seconds are left, \<open>k\<close> ticks only take \<open>k\<close> seconds off.\<close>

lemma ticks_running:
  "state s = Running \<Longrightarrow> int k < timeLeft s \<Longrightarrow>
   ticks ord session k s = s\<lparr>timeLeft := timeLeft s - int k\<rparr>"
proof (induction k arbitrary: s)
  case 0
  then show ?case by simp
next
  case (Suc k)
  let ?s' = "fire session (Tick ord) s"
  from Suc.prems have s': "?s' = s\<lparr>timeLeft := timeLeft s - 1\<rparr>"
    by (simp add: fire_def tick_def)
  have "state ?s' = Running" "int k < timeLeft ?s'"
    using Suc.prems by (simp_all add: s')
  from Suc.IH [OF this] show ?case
    by (simp add: s' algebra_simps)
qed

text \<open>The last of \<open>n + 1\<close> ticks is a tick after the first \<open>n\<close>.\<close>

lemma ticks_Suc_last:
  "ticks ord session (Suc n) s = fire session (Tick ord) (ticks ord session n s)"
  by (induction n arbitrary: s) simp_all

text \<open>
  C6. For a session of \<open>d\<close> minutes (\<open>d\<close> positive, as every session's duration is),
  the custom timer starts in study mode with \<open>d * 60\<close> seconds left of \<open>d * 60\<close>.
  After start is pressed, each of the first \<open>d * 60\<close> ticks is delivered and takes
  exactly one second off: after \<open>k < d * 60\<close> of them the timer is still running in
  study mode with \<open>d * 60 - k\<close> seconds left, and the next tick is due. After the last
  of the \<open>d * 60\<close> ticks the state is completed with no time left, and not before.
\<close>

theorem custom_timer_completes:
  assumes "0 < duration session"
  shows "timerType (initTimer session) = Custom
     \<and> mode (initTimer session) = Study
     \<and> state (initTimer session) = Idle
     \<and> timeLeft (initTimer session) = duration session * 60
     \<and> totalTime (initTimer session) = duration session * 60
     \<and> (k < nat (duration session * 60) \<longrightarrow>
          ticks ord session k (fire session Start (initTimer session))
            = (initTimer session)\<lparr>state := Running, timeLeft := duration session * 60 - int k\<rparr>
          \<and> rendered (Tick ord) (ticks ord session k (fire session Start (initTimer session))))
     \<and> ticks ord session (nat (duration session * 60)) (fire session Start (initTimer session))
          = (initTimer session)\<lparr>state := Completed, timeLeft := 0\<rparr>"
proof -
  let ?i = "initTimer session"
  let ?s = "fire session Start ?i"
  have init: "timerType ?i = Custom" "mode ?i = Study" "state ?i = Idle"
    "timeLeft ?i = duration session * 60" "totalTime ?i = duration session * 60"
    by (simp_all add: initTimer_def)
  have s: "?s = ?i\<lparr>state := Running\<rparr>"
    by (simp add: fire_def handleStart_def init)
  have run: "state ?s = Running"
    by (simp add: s)
  have left: "timeLeft ?s = duration session * 60"
    by (simp add: s init)
  have counted: "ticks ord session j ?s
      = ?i\<lparr>state := Running, timeLeft := duration session * 60 - int j\<rparr>"
    if "j < nat (duration session * 60)" for j
  proof -
    from that have "int j < timeLeft ?s"
      by (simp add: left)
    from ticks_running [OF run this, of ord session]
    have "ticks ord session j ?s = ?s\<lparr>timeLeft := timeLeft ?s - int j\<rparr>" .
    also have "\<dots> = ?i\<lparr>state := Running, timeLeft := duration session * 60 - int j\<rparr>"
      by (simp add: s init)
    finally show ?thesis .
  qed
  have before: "k < nat (duration session * 60) \<longrightarrow>
      ticks ord session k ?s
        = ?i\<lparr>state := Running, timeLeft := duration session * 60 - int k\<rparr>
      \<and> rendered (Tick ord) (ticks ord session k ?s)"
  proof
    assume k: "k < nat (duration session * 60)"
    have "0 < duration session * 60 - int k"
      using k by linarith
    then have "rendered (Tick ord) (ticks ord session k ?s)"
      by (simp add: counted [OF k])
    with counted [OF k] show "ticks ord session k ?s
        = ?i\<lparr>state := Running, timeLeft := duration session * 60 - int k\<rparr>
      \<and> rendered (Tick ord) (ticks ord session k ?s)"
      by simp
  qed
  obtain n where n: "nat (duration session * 60) = Suc n"
    using assms by (cases "nat (duration session * 60)") auto
  have m: "duration session * 60 - int n = 1"
    using n assms by linarith
  have at_one: "ticks ord session n ?s = ?i\<lparr>state := Running, timeLeft := 1\<rparr>"
    using counted [of n] n m by simp
  have "ticks ord session (Suc n) ?s = fire session (Tick ord) (ticks ord session n ?s)"
    by (rule ticks_Suc_last)
  also have "\<dots> = ?i\<lparr>state := Completed, timeLeft := 0\<rparr>"
    by (simp only: at_one) (simp add: fire_def tick_def init)
  finally have last: "ticks ord session (nat (duration session * 60)) ?s
      = ?i\<lparr>state := Completed, timeLeft := 0\<rparr>"
    by (simp only: n)
  from init before last show ?thesis
    by blast
qed

theorem custom_timer_completes_witness:
  "0 < duration shortSession
   \<and> (59::nat) < nat (duration shortSession * 60)
   \<and> ticks NestedLast shortSession 59 (fire shortSession Start (initTimer shortSession))
       = (initTimer shortSession)\<lparr>state := Running, timeLeft := 1\<rparr>
   \<and> rendered (Tick NestedLast)
        (ticks NestedLast shortSession 59 (fire shortSession Start (initTimer shortSession)))
   \<and> ticks NestedLast shortSession 60 (fire shortSession Start (initTimer shortSession))
       = (initTimer shortSession)\<lparr>state := Completed, timeLeft := 0\<rparr>"
proof -
  have d: "0 < duration shortSession"
    by (simp add: shortSession_def)
  have one: "duration shortSession = 1"
    by (simp add: shortSession_def)
  show ?thesis
    using d custom_timer_completes [OF d, of 59 NestedLast]
    by (simp add: one)
qed

subsection \<open>The time invariant\<close>

lemma studyTime_nonneg: "0 \<le> duration session \<Longrightarrow> 0 \<le> studyTime session ty"
  by (simp add: studyTime_def pomodoroStudyDuration_def)

lemma breakDuration_nonneg: "0 \<le> breakDuration pc"
  by (simp add: breakDuration_def)

lemma handler_timeInv:
  assumes "0 \<le> duration session" and "timeInv s"
  shows "timeInv (handler session e s)"
proof (cases e)
  case (Tick ord)
  with assms show ?thesis
    by (auto simp: timeInv_def tick_def studyTime_nonneg)
next
  case Reset
  with assms show ?thesis
    by (simp add: timeInv_def handleReset_def studyTime_nonneg breakDuration_nonneg)
next
  case (SelectType ty)
  with assms show ?thesis
    by (simp add: timeInv_def handleTimerTypeChange_def studyTime_nonneg)
qed (use assms in \<open>simp_all add: timeInv_def handleStart_def handlePause_def handleStop_def
      startBreak_def skipBreak_def handleComplete_def handleClose_def studyTime_nonneg
      breakDuration_nonneg\<close>)

lemma fire_timeInv:
  "0 \<le> duration session \<Longrightarrow> timeInv s \<Longrightarrow> timeInv (fire session e s)"
  by (simp add: fire_def handler_timeInv)

lemma initTimer_timeInv: "0 \<le> duration session \<Longrightarrow> timeInv (initTimer session)"
  by (simp add: timeInv_def initTimer_def)

lemma run_timeInv:
  "0 \<le> duration session \<Longrightarrow> timeInv s \<Longrightarrow> timeInv (run session es s)"
  by (induction es arbitrary: s) (simp_all add: fire_timeInv)

lemma handleReset_full:
  "timeLeft (handleReset session s) = totalTime (handleReset session s)
   \<and> totalTime (handleReset session s)
       = (if mode s = Study then studyTime session (timerType s)
          else breakDuration (pomodoroCount s))
   \<and> mode (handleReset session s) = mode s"
  by (simp add: handleReset_def)

text \<open>
  C7. Every operation of the timer (each handler, whether or not its control is shown,
  and the tick, including the expiry of a break in either order of its two writes)
  keeps \<open>0 \<le> timeLeft \<le> totalTime\<close>, for a session whose duration is not
  negative; so does every sequence of events from the initial state. After a reset,
  \<open>timeLeft\<close> equals \<open>totalTime\<close>, the full time of the current mode.
\<close>

theorem timer_invariant:
  assumes "0 \<le> duration session" and "timeInv s"
  shows "timeInv (initTimer session)
     \<and> timeInv (handler session e s)
     \<and> timeInv (fire session e s)
     \<and> timeInv (run session es (initTimer session))
     \<and> timeLeft (handleReset session s) = totalTime (handleReset session s)
     \<and> totalTime (handleReset session s)
         = (if mode s = Study then studyTime session (timerType s)
            else breakDuration (pomodoroCount s))
     \<and> mode (handleReset session s) = mode s"
  using assms handleReset_full [of session s]
  by (simp add: handler_timeInv fire_timeInv initTimer_timeInv run_timeInv)

theorem timer_invariant_witness:
  "0 \<le> duration calculus
   \<and> timeInv ((initTimer calculus)\<lparr>state := Paused, timeLeft := 17\<rparr>)
   \<and> timeInv (fire calculus Reset ((initTimer calculus)\<lparr>state := Paused, timeLeft := 17\<rparr>))
   \<and> timeLeft (handleReset calculus ((initTimer calculus)\<lparr>state := Paused, timeLeft := 17\<rparr>)) = 3600"
proof -
  have d: "0 \<le> duration calculus"
    by (simp add: calculus_def)
  have i: "timeInv ((initTimer calculus)\<lparr>state := Paused, timeLeft := 17\<rparr>)"
    by (simp add: timeInv_def initTimer_def calculus_def)
  show ?thesis
    using d i timer_invariant [OF d i, of Reset "[]"]
    by (simp add: handleReset_def initTimer_def studyTime_def calculus_def)
qed

subsection \<open>Calls of the host's callbacks\<close>

lemma handler_calls:
  "OnComplete x \<in> set (calls (handler session e s)) \<Longrightarrow>
   OnComplete x \<in> set (calls s) \<or> (e = MarkComplete \<and> x = sid session)"
  by (cases e) (auto simp: tick_def handleStart_def handlePause_def handleReset_def handleStop_def
      handleTimerTypeChange_def startBreak_def skipBreak_def handleComplete_def handleClose_def
      split: if_splits)

lemma fire_calls:
  "OnComplete x \<in> set (calls (fire session e s)) \<Longrightarrow>
   OnComplete x \<in> set (calls s)
   \<or> (e = MarkComplete \<and> state s = Completed \<and> mode s = Study \<and> x = sid session)"
  using handler_calls [of x session e s]
  by (cases "rendered e s") (auto simp: fire_def)

lemma run_calls:
  "OnComplete x \<in> set (calls (run session es s)) \<Longrightarrow>
   OnComplete x \<in> set (calls s) \<or> (MarkComplete \<in> set es \<and> x = sid session)"
proof (induction es arbitrary: s)
  case Nil
  then show ?case by simp
next
  case (Cons e es)
  from Cons.prems have "OnComplete x \<in> set (calls (run session es (fire session e s)))"
    by simp
  from Cons.IH [OF this] show ?case
    using fire_calls [of x session e s] by auto
qed

lemma tick_calls: "calls (fire session (Tick ord) s) = calls s"
  by (simp add: fire_def tick_def)

lemma expiry_completed:
  "fire session (Tick ord) (s\<lparr>state := Running, mode := Study, timeLeft := 1\<rparr>)
     = s\<lparr>state := Completed, mode := Study, timeLeft := 0\<rparr>"
  by (simp add: fire_def tick_def)

text \<open>
  C8. The completion callback is called only by the mark-complete action, which is
  available only in the completed state, and then with the session's id: an event adds
  a call of it only if it is that action in that state, and a sequence of events adds
  one only if it contains that action. A tick never calls anything; the tick on which
  the study time runs out only sets the state to completed.
\<close>

theorem onComplete_only_on_mark_complete:
  "(OnComplete x \<in> set (calls (fire session e s)) \<longrightarrow>
      OnComplete x \<in> set (calls s)
      \<or> (e = MarkComplete \<and> state s = Completed \<and> mode s = Study \<and> x = sid session))
   \<and> (OnComplete x \<in> set (calls (run session es s0)) \<longrightarrow>
      OnComplete x \<in> set (calls s0) \<or> (MarkComplete \<in> set es \<and> x = sid session))
   \<and> calls (fire session (Tick ord) s) = calls s
   \<and> fire session (Tick ord) (s\<lparr>state := Running, mode := Study, timeLeft := 1\<rparr>)
       = s\<lparr>state := Completed, mode := Study, timeLeft := 0\<rparr>
   \<and> calls (fire session MarkComplete (s\<lparr>state := Completed, mode := Study\<rparr>))
       = calls s @ [OnComplete (sid session), OnClose]"
proof -
  have a: "OnComplete x \<in> set (calls (fire session e s)) \<longrightarrow>
      OnComplete x \<in> set (calls s)
      \<or> (e = MarkComplete \<and> state s = Completed \<and> mode s = Study \<and> x = sid session)"
    using fire_calls [of x session e s] by blast
  have b: "OnComplete x \<in> set (calls (run session es s0)) \<longrightarrow>
      OnComplete x \<in> set (calls s0) \<or> (MarkComplete \<in> set es \<and> x = sid session)"
    using run_calls [of x session es s0] by blast
  have c: "calls (fire session (Tick ord) s) = calls s"
    by (rule tick_calls)
  have d: "fire session (Tick ord) (s\<lparr>state := Running, mode := Study, timeLeft := 1\<rparr>)
       = s\<lparr>state := Completed, mode := Study, timeLeft := 0\<rparr>"
    by (rule expiry_completed)
  have e: "calls (fire session MarkComplete (s\<lparr>state := Completed, mode := Study\<rparr>))
       = calls s @ [OnComplete (sid session), OnClose]"
    by (simp add: fire_def handleComplete_def)
  from a b c d e show ?thesis
    by blast
qed

theorem onComplete_only_on_mark_complete_witness:
  "state (run shortSession [Start, Tick ReturnLast] ((initTimer shortSession)\<lparr>timeLeft := 1\<rparr>)) = Completed
   \<and> OnComplete ''1'' \<in> set (calls (fire shortSession MarkComplete
        (run shortSession [Start, Tick ReturnLast] ((initTimer shortSession)\<lparr>timeLeft := 1\<rparr>))))
   \<and> OnComplete ''1'' \<in> set (calls (run shortSession [Start, Tick ReturnLast, MarkComplete]
        ((initTimer shortSession)\<lparr>timeLeft := 1\<rparr>)))
   \<and> calls (run shortSession [Start, Tick ReturnLast] ((initTimer shortSession)\<lparr>timeLeft := 1\<rparr>)) = []
   \<and> MarkComplete \<in> set [Start, Tick ReturnLast, MarkComplete]
   \<and> ''1'' = sid shortSession"
  using onComplete_only_on_mark_complete
    [of "''1''" shortSession MarkComplete
        "run shortSession [Start, Tick ReturnLast] ((initTimer shortSession)\<lparr>timeLeft := 1\<rparr>)"
        "[Start, Tick ReturnLast, MarkComplete]" "(initTimer shortSession)\<lparr>timeLeft := 1\<rparr>"
        ReturnLast]
  by (simp add: fire_def tick_def handleStart_def handleComplete_def initTimer_def
      shortSession_def calculus_def)

section \<open>Properties of the goals and streak calculator\<close>

subsection \<open>Dates\<close>

lemma completedDates_distinct: "distinct (completedDates z ss)"
  by (simp add: completedDates_def)

lemma sorted_dates:
  "sort (completedDates z ss) = sorted_list_of_set (set (completedDates z ss))"
  by (simp only: completedDates_def set_remdups sorted_list_of_set_sort_remdups)

lemma sort_two_days:
  assumes "set (completedDates z ss) = {t, t - msPerDay}"
  shows "sort (completedDates z ss) = [t - msPerDay, t]"
proof (rule sorted_distinct_set_unique)
  show "sorted (sort (completedDates z ss))" by simp
  show "distinct (sort (completedDates z ss))" by (simp add: completedDates_distinct)
  show "sorted [t - msPerDay, t]" by (simp add: msPerDay_def)
  show "distinct [t - msPerDay, t]" by (simp add: msPerDay_def)
  show "set (sort (completedDates z ss)) = set [t - msPerDay, t]"
    using assms by auto
qed

lemma shift_days: "(t - w * msPerDay + tz) div msPerDay = (t + tz) div msPerDay - w"
proof -
  have "t - w * msPerDay + tz = (t + tz) + (- w) * msPerDay"
    by (simp add: algebra_simps)
  then show ?thesis
    by (simp add: msPerDay_def)
qed

lemma day_of_midnight: "(n * msPerDay - tz + tz) div msPerDay = n"
  by (simp add: msPerDay_def)

lemma day_bounds:
  "((t + tz) div msPerDay) * msPerDay - tz \<le> t
   \<and> t < ((t + tz) div msPerDay) * msPerDay - tz + msPerDay"
proof -
  have "(t + tz) = ((t + tz) div msPerDay) * msPerDay + (t + tz) mod msPerDay"
    by simp
  moreover have "0 \<le> (t + tz) mod msPerDay" "(t + tz) mod msPerDay < msPerDay"
    by (simp_all add: msPerDay_def)
  ultimately show ?thesis
    by linarith
qed

subsection \<open>The current streak in the cases without a gap\<close>

text \<open>
  These hold in every zone. In the third, yesterday's midnight is taken to be
  \<open>msPerDay\<close> before today's, which is what the loop tests; across a change of
  daylight saving it is not, and the loop then stops after today.
\<close>

lemma streak_none_completed:
  "filter completed ss = [] \<Longrightarrow> calculateStreak z now ss = 0"
  by (simp add: calculateStreak_def completedDates_def)

lemma streak_today_only:
  assumes "set (completedDates z ss) = {startOfDay z now}"
  shows "calculateStreak z now ss = 1"
  using assms by (simp add: calculateStreak_def sorted_dates)

lemma streak_today_and_yesterday:
  assumes "set (completedDates z ss) = {startOfDay z now, startOfDay z now - msPerDay}"
  shows "calculateStreak z now ss = 2"
  using sort_two_days [OF assms]
  by (simp add: calculateStreak_def msPerDay_def)

subsection \<open>Streaks across a day without a session\<close>

text \<open>
  C1. The longest streak is at least the current streak. That fails for sessions
  completed today and the day before yesterday, with none yesterday: the loop of
  \<open>calculateStreak\<close> accepts a date one day before the expected one at every step, not
  only at the first, and counts 2, while \<open>calculateLongestStreak\<close> counts 1.
\<close>

theorem current_streak_exceeds_longest:
  "calculateStreak utc monday [studied monday 60, studied (monday - 2 * msPerDay) 45] = 2
   \<and> calculateLongestStreak utc [studied monday 60, studied (monday - 2 * msPerDay) 45] = 1"
  by code_simp

text \<open>
  C3. The current streak is the number of consecutive calendar days with a completed
  session, counted back from today or yesterday (\<open>specStreak\<close>). With no completed
  session, with one dated today, and with sessions today and yesterday only, the code
  gives 0, 1 and 2 (the three lemmas above). With sessions today, two days ago and four
  days ago it gives 3, where only today counts.
\<close>

theorem streak_counts_across_gaps:
  "calculateStreak utc monday
     [studied monday 60, studied (monday - 2 * msPerDay) 45, studied (monday - 4 * msPerDay) 30] = 3
   \<and> specStreak utc monday
     [studied monday 60, studied (monday - 2 * msPerDay) 45, studied (monday - 4 * msPerDay) 30] = 1"
  by code_simp

subsection \<open>The week\<close>

text \<open>
  In a zone at a fixed offset the window starts at the midnight of the most recent
  Sunday.
\<close>

lemma startOfWeek_is_sunday:
  "getDay (fixedZone tz) (startOfWeek (fixedZone tz) now) = 0
   \<and> startOfWeek (fixedZone tz) now \<le> now
   \<and> now < startOfWeek (fixedZone tz) now + 7 * msPerDay"
proof -
  define L where "L = (now + tz) div msPerDay"
  define w where "w = (L + 4) mod 7"
  have w: "0 \<le> w" "w \<le> 6"
    by (simp_all add: w_def)
  have sow: "startOfWeek (fixedZone tz) now = (L - w) * msPerDay - tz"
    by (simp add: startOfWeek_def fixedZone_def shift_days L_def w_def)
  have "getDay (fixedZone tz) (startOfWeek (fixedZone tz) now)
      = (((L - w) * msPerDay - tz + tz) div msPerDay + 4) mod 7"
    by (simp only: sow) (simp only: fixedZone_def zone.simps)
  also have "\<dots> = (L - w + 4) mod 7"
    by (simp only: day_of_midnight)
  also have "\<dots> = 0"
    unfolding w_def by presburger
  finally have sunday: "getDay (fixedZone tz) (startOfWeek (fixedZone tz) now) = 0" .
  have b: "L * msPerDay - tz \<le> now" "now < L * msPerDay - tz + msPerDay"
    using day_bounds [of now tz] by (simp_all add: L_def)
  have pos: "0 < msPerDay"
    by (simp add: msPerDay_def)
  have le1: "(L - w) * msPerDay \<le> L * msPerDay"
    using w pos by (simp add: mult_right_mono)
  have "(L + 1) * msPerDay \<le> (L - w + 7) * msPerDay"
    using w pos by (intro mult_right_mono) simp_all
  then have le2: "L * msPerDay + msPerDay \<le> (L - w) * msPerDay + 7 * msPerDay"
    by (simp add: algebra_simps)
  have lo: "startOfWeek (fixedZone tz) now \<le> now"
    using b(1) le1 unfolding sow by linarith
  have hi: "now < startOfWeek (fixedZone tz) now + 7 * msPerDay"
    using b(2) le2 unfolding sow by linarith
  from sunday lo hi show ?thesis
    by blast
qed

text \<open>
  C2. The weekly progress sums the completed sessions that start in the window from
  Sunday 00:00 to the next Sunday 00:00, the end excluded. The filter of
  \<open>getWeekProgress\<close> has the lower bound only. On Monday 2026-01-05, with one completed
  session that starts at the end of the window (Sunday 2026-01-11 00:00:00, 30 minutes)
  and one that starts a second before the window (Saturday 2026-01-03 23:59:59,
  45 minutes), the second is left out and the first is counted in this week.
\<close>

theorem week_progress_counts_later_weeks:
  "startOfWeek utc monday = 1767484800000
   \<and> getWeekProgress utc monday defaultGoals
        [studied (1767484800000 + 7 * msPerDay) 30, studied (1767484800000 - 1000) 45]
      = \<lparr>minutes = \<lparr>current = 30, target = 600\<rparr>, sessions = \<lparr>current = 1, target = 10\<rparr>\<rparr>"
  by code_simp

subsection \<open>Percentages\<close>

lemma percent_zero:
  "target p = 0 \<Longrightarrow>
   percentValue toNumber p
     = (if current p = 0 then NaN else if 0 < current p then PosInfinity else NegInfinity)
   \<and> percentLabel toNumber p = percentValue toNumber p"
  by (simp add: percentLabel_def percentValue_def jsDivide_def jsTimes100_def mathRound_def)

text \<open>
  C5, as the specification states it: with a goal target of 0 the percentage takes a
  defined default value. It does not: with the daily target 0 the label of today's
  progress is \<open>NaN\<close> when nothing was studied today and infinite after a session.
\<close>

theorem zero_target_not_guarded:
  "percentLabel Finite (getTodayProgress utc monday (defaultGoals\<lparr>dailyMinutes := 0\<rparr>) []) = NaN
   \<and> percentLabel Finite
        (getTodayProgress utc monday (defaultGoals\<lparr>dailyMinutes := 0\<rparr>) [studied monday 60])
       = PosInfinity"
  by code_simp

text \<open>
  C5, amended. When a goal's target is 0, the percentage of the progress measured
  against it is the result of the unguarded division: \<open>NaN\<close> when the current value
  is 0, positive infinity when it is positive, negative infinity when it is negative,
  for the label and for the bar alike. Nothing is raised and no default is put in its
  place. This holds for today's minutes, the week's minutes and the week's sessions,
  in every zone and whatever the rounding of finite results.
\<close>

theorem percentage_of_zero_target:
  "(dailyMinutes g = 0 \<longrightarrow>
      percentLabel toNumber (getTodayProgress z now g ss)
        = (if current (getTodayProgress z now g ss) = 0 then NaN
           else if 0 < current (getTodayProgress z now g ss) then PosInfinity else NegInfinity)
      \<and> percentValue toNumber (getTodayProgress z now g ss)
          = percentLabel toNumber (getTodayProgress z now g ss))
   \<and> (weeklyMinutes g = 0 \<longrightarrow>
      percentLabel toNumber (minutes (getWeekProgress z now g ss))
        = (if current (minutes (getWeekProgress z now g ss)) = 0 then NaN
           else if 0 < current (minutes (getWeekProgress z now g ss)) then PosInfinity
           else NegInfinity)
      \<and> percentValue toNumber (minutes (getWeekProgress z now g ss))
          = percentLabel toNumber (minutes (getWeekProgress z now g ss)))
   \<and> (weeklySessions g = 0 \<longrightarrow>
      percentLabel toNumber (sessions (getWeekProgress z now g ss))
        = (if current (sessions (getWeekProgress z now g ss)) = 0 then NaN
           else if 0 < current (sessions (getWeekProgress z now g ss)) then PosInfinity
           else NegInfinity)
      \<and> percentValue toNumber (sessions (getWeekProgress z now g ss))
          = percentLabel toNumber (sessions (getWeekProgress z now g ss)))"
proof -
  have t: "target (getTodayProgress z now g ss) = dailyMinutes g"
    "target (minutes (getWeekProgress z now g ss)) = weeklyMinutes g"
    "target (sessions (getWeekProgress z now g ss)) = weeklySessions g"
    by (simp_all add: getTodayProgress_def getWeekProgress_def Let_def)
  show ?thesis
    using percent_zero [of "getTodayProgress z now g ss" toNumber]
      percent_zero [of "minutes (getWeekProgress z now g ss)" toNumber]
      percent_zero [of "sessions (getWeekProgress z now g ss)" toNumber]
    unfolding t by presburger
qed

theorem percentage_of_zero_target_witness:
  "dailyMinutes noGoals = 0 \<and> weeklyMinutes noGoals = 0 \<and> weeklySessions noGoals = 0
   \<and> percentLabel Finite (getTodayProgress utc monday noGoals [studied monday 60]) = PosInfinity
   \<and> percentLabel Finite (minutes (getWeekProgress utc monday noGoals [studied monday 60]))
       = PosInfinity
   \<and> percentLabel Finite (sessions (getWeekProgress utc monday noGoals [])) = NaN"
proof -
  have z: "dailyMinutes noGoals = 0" "weeklyMinutes noGoals = 0" "weeklySessions noGoals = 0"
    by (simp_all add: noGoals_def)
  have c: "current (getTodayProgress utc monday noGoals [studied monday 60]) = 60"
    "current (minutes (getWeekProgress utc monday noGoals [studied monday 60])) = 60"
    "current (sessions (getWeekProgress utc monday noGoals [])) = 0"
    by code_simp+
  show ?thesis
    using percentage_of_zero_target [of noGoals Finite utc monday "[studied monday 60]"]
      percentage_of_zero_target [of noGoals Finite utc monday "[]"]
    by (simp add: z c)
qed

section \<open>Properties of the calendar export\<close>

lemma generateICSContent_frame:
  "generateEvents toISO now ss = Inr evs \<Longrightarrow>
   generateICSContent toISO now ss =
     Inr (''BEGIN:VCALENDAR'' @ newline @ ''VERSION:2.0'' @ newline
          @ ''PRODID:-//StudySmart//Study Scheduler//EN'' @ newline
          @ ''CALSCALE:GREGORIAN'' @ newline @ ''METHOD:PUBLISH'' @ newline
          @ join newline evs @ newline @ ''END:VCALENDAR'')"
  by (simp add: generateICSContent_def)

lemma generateEvents_length:
  "generateEvents toISO now ss = Inr evs \<Longrightarrow> length evs = length ss"
  by (induction ss arbitrary: evs) (auto split: sum.splits)

lemma event_times:
  "eventLines toISO now session = Inr ls \<Longrightarrow>
   Inr (ls ! 3) = map_sum id ((@) ''DTSTART:'') (formatDate toISO (startTime session))
   \<and> Inr (ls ! 4) = map_sum id ((@) ''DTEND:'')
        (formatDate toISO (startTime session + duration session * 60000))
   \<and> ls ! 10 = ''TRIGGER:-PT15M''"
  by (auto simp: eventLines_def Let_def split: sum.splits)

text \<open>
  C9. The export holds one event per session, between the calendar's opening and
  closing lines, with the alarm 15 minutes before and the end at the start plus the
  duration (the three lemmas above), and every free-text field escaped. The summary
  line escapes the subject and the topic, but the description line repeats the topic
  and the categories line the subject as they are: for the subject \<open>Maths, pure\<close> and
  the topic \<open>a,b;c\<close> the commas and the semicolon reach both lines unescaped.
\<close>

theorem description_topic_not_escaped:
  "map_sum id (\<lambda>ls. [ls ! 5, ls ! 6, ls ! 8]) (eventLines toISO monday punctuated)
     = Inr [''SUMMARY:Maths'' @ backslash @ '', pure: a'' @ backslash @ '',b'' @ backslash @ '';c'',
            ''DESCRIPTION:Study session: a,b;c'' @ backslash @ ''n'' @ backslash @ ''nDifficulty: hard'',
            ''CATEGORIES:Study,Maths, pure,hard'']
   \<and> escapeText (topic punctuated) = ''a'' @ backslash @ '',b'' @ backslash @ '';c''"
  by (simp add: eventLines_def formatDate_def validDate_def eventDescription_def escapeText_def
      replaceAll_def punctuated_def calculus_def backslash_def monday_def Let_def)

section \<open>Properties of the study plan generator\<close>

subsection \<open>The selected topics\<close>

lemma take_prefix: "take (length k) s = k \<longleftrightarrow> prefix k s"
proof
  assume "take (length k) s = k"
  then have "s = k @ drop (length k) s"
    by (metis append_take_drop_id)
  then show "prefix k s"
    by (metis prefixI)
next
  assume "prefix k s"
  then obtain zs where "s = k @ zs"
    by (auto simp: prefix_def)
  then show "take (length k) s = k"
    by simp
qed

text \<open>\<open>includesStr\<close> is the substring test.\<close>

lemma includesStr_sublist: "includesStr s k \<longleftrightarrow> sublist k s"
proof (induction s)
  case Nil
  show ?case by simp
next
  case (Cons c cs)
  have "includesStr (c # cs) k \<longleftrightarrow> prefix k (c # cs) \<or> includesStr cs k"
    by (simp only: includesStr.simps take_prefix)
  then show ?case
    by (simp only: Cons.IH sublist_Cons_right)
qed

lemma csTopics_lengths: "\<forall>(key, value) \<in> set csTopics. length value = 14"
  by (simp add: csTopics_def)

lemma find_in_csTopics:
  assumes "find P csTopics = Some (key, value)"
  shows "length value = 14"
proof -
  from assms obtain i where "i < length csTopics" and "csTopics ! i = (key, value)"
    by (auto simp: find_Some_iff)
  then have "(key, value) \<in> set csTopics"
    by (metis nth_mem)
  with csTopics_lengths show ?thesis
    by auto
qed

text \<open>
  The list of the first key of the table that occurs in the lower-cased subject or
  in which the lower-cased subject occurs; the generic list when there is no such key.
\<close>

lemma selectTopics_first_match:
  "selectTopics lower subj =
     (case find (\<lambda>(key, value). sublist key (lower subj) \<or> sublist (lower subj) key) csTopics of
        None \<Rightarrow> genericTopics subj
      | Some (key, value) \<Rightarrow> value)"
proof (cases "find (\<lambda>(key, value). sublist key (lower subj) \<or> sublist (lower subj) key) csTopics")
  case None
  then show ?thesis
    by (simp add: selectTopics_def includesStr_sublist)
next
  case (Some kv)
  obtain key "value" where kv: "kv = (key, value)"
    by (cases kv)
  from Some have "length value = 14"
    unfolding kv by (rule find_in_csTopics)
  with Some show ?thesis
    by (auto simp: selectTopics_def includesStr_sublist kv)
qed

lemma selectTopics_length: "length (selectTopics lower subj) = 14"
proof (cases "find (\<lambda>(key, value). sublist key (lower subj) \<or> sublist (lower subj) key) csTopics")
  case None
  then show ?thesis
    by (simp add: selectTopics_first_match genericTopics_def)
next
  case (Some kv)
  obtain key "value" where kv: "kv = (key, value)"
    by (cases kv)
  from Some have "length value = 14"
    unfolding kv by (rule find_in_csTopics)
  with Some show ?thesis
    by (simp add: selectTopics_first_match kv)
qed

subsection \<open>The loop over the days\<close>

lemma slice_day:
  assumes "0 \<le> s" and "0 \<le> tpd"
  shows "slice ts s (min (s + tpd) (int (length ts))) = take (nat tpd) (drop (nat s) ts)"
proof (cases "s + tpd \<le> int (length ts)")
  case True
  then show ?thesis
    by (simp add: slice_def min_def)
next
  case False
  with assms have "length (drop (nat s) ts) \<le> nat (int (length ts) - s)"
    and "length (drop (nat s) ts) \<le> nat tpd"
    by simp_all
  with False show ?thesis
    by (simp add: slice_def min_def)
qed

lemma dayEntry_eq:
  assumes "1 \<le> d" and "0 \<le> tpd"
  shows "dayEntry ts tpd days d =
     (if take (nat tpd) (drop (nat (d - 1) * nat tpd) ts) \<noteq> []
      then [\<lparr>day = d, topics = take (nat tpd) (drop (nat (d - 1) * nat tpd) ts),
             focus = focusOf days d\<rparr>]
      else [])"
proof -
  have "0 \<le> (d - 1) * tpd"
    using assms by simp
  moreover have "nat ((d - 1) * tpd) = nat (d - 1) * nat tpd"
    using assms by (simp add: nat_mult_distrib)
  ultimately show ?thesis
    using assms by (simp add: dayEntry_def Let_def slice_day)
qed

lemma planLoop_done: "days < d \<Longrightarrow> planLoop ts tpd days d = Some []"
  by (subst planLoop.simps) simp

lemma planLoop_step:
  "d \<le> days \<Longrightarrow> d < maxCounter \<Longrightarrow>
   planLoop ts tpd days d =
     Option.bind (planLoop ts tpd days (d + 1)) (\<lambda>rest. Some (dayEntry ts tpd days d @ rest))"
  by (subst planLoop.simps) (simp add: increment_def)

lemma planLoop_stay:
  "maxCounter \<le> days \<Longrightarrow>
   planLoop ts tpd days maxCounter =
     Option.bind (planLoop ts tpd days maxCounter)
       (\<lambda>rest. Some (dayEntry ts tpd days maxCounter @ rest))"
  by (subst planLoop.simps) (simp add: increment_def)

text \<open>
  Whenever the loop returns, it was not entered with the counter at \<open>maxCounter\<close> and
  \<open>days\<close> at least that: there the counter no longer moves.
\<close>

lemma planLoop_Some_moves:
  assumes "planLoop ts tpd days d = Some plan"
  shows "\<not> (d = maxCounter \<and> maxCounter \<le> days)"
proof (rule planLoop.raw_induct
    [where P = "\<lambda>ts tpd days d plan. \<not> (d = maxCounter \<and> maxCounter \<le> days)", OF _ assms])
  fix loop :: "string list \<Rightarrow> int \<Rightarrow> int \<Rightarrow> int \<Rightarrow> planDay list option"
  fix ts tpd days d plan
  assume IH: "\<And>ts tpd days d plan.
      loop ts tpd days d = Some plan \<Longrightarrow> \<not> (d = maxCounter \<and> maxCounter \<le> days)"
  assume eq: "(if d \<le> days
       then Option.bind (loop ts tpd days (increment d))
              (\<lambda>rest. Some (dayEntry ts tpd days d @ rest))
       else Some []) = Some plan"
  show "\<not> (d = maxCounter \<and> maxCounter \<le> days)"
  proof
    assume stuck: "d = maxCounter \<and> maxCounter \<le> days"
    then have "increment d = d" and "d \<le> days"
      by (simp_all add: increment_def)
    with eq obtain rest where "loop ts tpd days d = Some rest"
      by (auto split: bind_splits)
    then have "\<not> (d = maxCounter \<and> maxCounter \<le> days)"
      by (rule IH)
    with stuck show False
      by blast
  qed
qed

lemma planLoop_stuck: "maxCounter \<le> days \<Longrightarrow> planLoop ts tpd days maxCounter = None"
  using planLoop_Some_moves [of ts tpd days maxCounter]
  by (cases "planLoop ts tpd days maxCounter") auto

lemma planLoop_diverges:
  "maxCounter \<le> days \<Longrightarrow> d \<le> maxCounter \<Longrightarrow> planLoop ts tpd days d = None"
proof (induction "nat (maxCounter - d)" arbitrary: d)
  case 0
  then have "d = maxCounter"
    by simp
  with "0.prems" show ?case
    by (simp add: planLoop_stuck)
next
  case (Suc n)
  then have lt: "d < maxCounter" and "n = nat (maxCounter - (d + 1))"
    by linarith+
  with Suc have "planLoop ts tpd days (d + 1) = None"
    by simp
  moreover have "d \<le> days"
    using lt Suc.prems by simp
  ultimately show ?case
    using lt by (simp add: planLoop_step)
qed

text \<open>
  Below \<open>maxCounter\<close> the loop returns. Its entries from day \<open>d\<close> on hold the topics
  from index \<open>(d - 1) * tpd\<close> on, in order, number the days from \<open>d\<close> on without a
  gap, and are none once the topics are used up.
\<close>

lemma planLoop_returns:
  assumes "days < maxCounter" and "1 \<le> d" and "0 \<le> tpd"
  shows "\<exists>plan. planLoop ts tpd days d = Some plan
     \<and> concat (map topics plan)
         = take (nat (days + 1 - d) * nat tpd) (drop (nat (d - 1) * nat tpd) ts)
     \<and> (\<forall>e \<in> set plan. topics e \<noteq> [])
     \<and> (0 < tpd \<longrightarrow> map day plan = [d .. d + int (length plan) - 1])
     \<and> (length ts \<le> nat (d - 1) * nat tpd \<longrightarrow> plan = [])"
  using assms(2)
proof (induction "nat (days + 1 - d)" arbitrary: d)
  case 0
  then have "days < d"
    by simp
  then have "planLoop ts tpd days d = Some []"
    by (rule planLoop_done)
  moreover have "nat (days + 1 - d) = 0"
    using \<open>days < d\<close> by simp
  ultimately show ?case
    by simp
next
  case (Suc n)
  then have le: "d \<le> days" and n: "n = nat (days + 1 - (d + 1))"
    by linarith+
  have lt: "d < maxCounter"
    using le assms(1) by simp
  from Suc.hyps(1) [OF n] Suc.prems
  obtain rest where rest: "planLoop ts tpd days (d + 1) = Some rest"
    and cat: "concat (map topics rest)
        = take (nat (days + 1 - (d + 1)) * nat tpd) (drop (nat (d + 1 - 1) * nat tpd) ts)"
    and ne: "\<forall>e \<in> set rest. topics e \<noteq> []"
    and num: "0 < tpd \<longrightarrow> map day rest = [d + 1 .. d + 1 + int (length rest) - 1]"
    and used: "length ts \<le> nat (d + 1 - 1) * nat tpd \<longrightarrow> rest = []"
    by fastforce
  let ?s = "nat (d - 1) * nat tpd"
  let ?X = "take (nat tpd) (drop ?s ts)"
  let ?E = "dayEntry ts tpd days d"
  have E: "?E = (if ?X \<noteq> [] then [\<lparr>day = d, topics = ?X, focus = focusOf days d\<rparr>] else [])"
    using Suc.prems assms(3) by (rule dayEntry_eq)
  have plan: "planLoop ts tpd days d = Some (?E @ rest)"
    by (simp add: planLoop_step [OF le lt] rest)
  have idx: "nat (d + 1 - 1) * nat tpd = ?s + nat tpd"
  proof -
    have "nat (d + 1 - 1) = Suc (nat (d - 1))"
      using Suc.prems by simp
    then show ?thesis by simp
  qed
  have cnt: "nat (days + 1 - d) * nat tpd = nat tpd + nat (days + 1 - (d + 1)) * nat tpd"
  proof -
    have "nat (days + 1 - d) = Suc (nat (days + 1 - (d + 1)))"
      using le by simp
    then show ?thesis by simp
  qed
  have "concat (map topics (?E @ rest)) = ?X @ concat (map topics rest)"
    by (simp add: E)
  also have "\<dots> = ?X @ take (nat (days + 1 - (d + 1)) * nat tpd) (drop (?s + nat tpd) ts)"
    by (simp only: cat idx)
  also have "\<dots> = take (nat tpd + nat (days + 1 - (d + 1)) * nat tpd) (drop ?s ts)"
    by (simp add: take_add add.commute)
  finally have c: "concat (map topics (?E @ rest))
      = take (nat (days + 1 - d) * nat tpd) (drop ?s ts)"
    by (simp only: cnt)
  have e: "\<forall>e \<in> set (?E @ rest). topics e \<noteq> []"
    using ne by (auto simp: E split: if_splits)
  have u: "length ts \<le> ?s \<longrightarrow> ?E @ rest = []"
  proof
    assume a: "length ts \<le> ?s"
    then have "length ts \<le> nat (d + 1 - 1) * nat tpd"
      unfolding idx by simp
    with used have "rest = []"
      by blast
    with a show "?E @ rest = []"
      by (simp add: E)
  qed
  have m: "0 < tpd \<longrightarrow> map day (?E @ rest) = [d .. d + int (length (?E @ rest)) - 1]"
  proof
    assume pos: "0 < tpd"
    show "map day (?E @ rest) = [d .. d + int (length (?E @ rest)) - 1]"
    proof (cases "?X = []")
      case True
      with pos have "length ts \<le> ?s"
        by simp
      with u have "?E @ rest = []"
        by simp
      then show ?thesis
        by simp
    next
      case False
      then have "map day (?E @ rest) = d # [d + 1 .. d + 1 + int (length rest) - 1]"
        using num pos by (simp add: E)
      also have "\<dots> = [d .. d + int (Suc (length rest)) - 1]"
        by (simp add: upto_rec1 [of d])
      finally show ?thesis
        using False by (simp add: E)
    qed
  qed
  from plan c e m u show ?case
    by blast
qed

lemma ceil_div_covers:
  assumes "1 \<le> (days::int)" and "0 \<le> n"
  shows "n \<le> days * ((n + days - 1) div days)" and "0 \<le> (n + days - 1) div days"
proof -
  have "n + days - 1 = days * ((n + days - 1) div days) + (n + days - 1) mod days"
    by simp
  moreover have "(n + days - 1) mod days < days"
    using assms by simp
  ultimately show "n \<le> days * ((n + days - 1) div days)"
    by linarith
  show "0 \<le> (n + days - 1) div days"
    using assms by (simp add: pos_imp_zdiv_nonneg_iff)
qed

lemma generateCSStudyPlan_returns:
  assumes "1 \<le> days" and "days < maxCounter"
  shows "\<exists>plan. generateCSStudyPlan lower subj days = Some plan
     \<and> plan \<noteq> []
     \<and> map day plan = [1 .. int (length plan)]
     \<and> sorted_wrt (<) (map day plan)
     \<and> (\<forall>e \<in> set plan. topics e \<noteq> [])
     \<and> concat (map topics plan) = selectTopics lower subj"
proof -
  let ?ts = "selectTopics lower subj"
  let ?tpd = "(int (length ?ts) + days - 1) div days"
  have gen: "generateCSStudyPlan lower subj days = planLoop ?ts ?tpd days 1"
    by (simp add: generateCSStudyPlan_def Let_def)
  have len: "length ?ts = 14"
    by (rule selectTopics_length)
  have cover: "int (length ?ts) \<le> days * ?tpd" and tpd0: "0 \<le> ?tpd"
    using assms(1) by (simp_all add: ceil_div_covers)
  have pos: "0 < ?tpd"
  proof (rule ccontr)
    assume "\<not> 0 < ?tpd"
    with tpd0 have "?tpd = 0"
      by simp
    with cover len show False
      by simp
  qed
  from planLoop_returns [OF assms(2) order_refl tpd0, of ?ts] pos
  obtain plan where plan: "planLoop ?ts ?tpd days 1 = Some plan"
    and cat: "concat (map topics plan) = take (nat (days + 1 - 1) * nat ?tpd) (drop (nat (1 - 1) * nat ?tpd) ?ts)"
    and ne: "\<forall>e \<in> set plan. topics e \<noteq> []"
    and num: "map day plan = [1 .. 1 + int (length plan) - 1]"
    by blast
  have "int (length ?ts) \<le> int (nat days * nat ?tpd)"
    using cover assms(1) tpd0 by (simp add: nat_mult_distrib)
  then have "length ?ts \<le> nat days * nat ?tpd"
    by linarith
  with cat have whole: "concat (map topics plan) = ?ts"
    by simp
  with len have nonempty: "plan \<noteq> []"
    by auto
  have days: "map day plan = [1 .. int (length plan)]"
    using num by simp
  have "sorted_wrt (<) [1 .. int (length plan)]"
    by (simp add: sorted_wrt_upto)
  then have incr: "sorted_wrt (<) (map day plan)"
    by (simp only: days)
  from plan nonempty days incr ne whole show ?thesis
    unfolding gen by blast
qed

lemma generateCSStudyPlan_diverges:
  "maxCounter \<le> days \<Longrightarrow> generateCSStudyPlan lower subj days = None"
  by (simp add: generateCSStudyPlan_def Let_def planLoop_diverges maxCounter_def)

text \<open>
  C10, as stated: for every integer number of days from 1 on the generator returns a
  plan. The loop counter is a number of the language and stops increasing at
  \<open>2 ^ 53 = 9007199254740992\<close>; for that many days, which the endpoint passes on
  unchecked, the loop does not end and nothing is returned.
\<close>

theorem plan_never_returned:
  "(1::int) \<le> 9007199254740992
   \<and> generateCSStudyPlan asciiLower ''Python'' 9007199254740992 = None"
  using generateCSStudyPlan_diverges [of 9007199254740992 asciiLower "''Python''"]
  by (simp add: maxCounter_def)

text \<open>
  C10, amended. The topic list selected for a subject is the list of the first key of
  the table that occurs in the lower-cased subject or in which the lower-cased subject
  occurs, and the generic list made from the subject when there is no such key; it
  has 14 topics. For every number of days from 1 up to, but not including, \<open>2 ^ 53\<close>,
  whatever the case mapping, the generator returns a plan that is not empty, numbers
  its entries 1, 2, 3, ... (strictly increasing from 1), gives each entry at least one
  topic, and whose topic lists, one after the other, are the selected list. From
  \<open>2 ^ 53\<close> days on it does not return.
\<close>

theorem plan_covers_topics:
  "selectTopics lower subj =
     (case find (\<lambda>(key, value). sublist key (lower subj) \<or> sublist (lower subj) key) csTopics of
        None \<Rightarrow> genericTopics subj
      | Some (key, value) \<Rightarrow> value)
   \<and> length (selectTopics lower subj) = 14
   \<and> (1 \<le> days \<and> days < 9007199254740992 \<longrightarrow>
        (\<exists>plan. generateCSStudyPlan lower subj days = Some plan
           \<and> plan \<noteq> []
           \<and> map day plan = [1 .. int (length plan)]
           \<and> sorted_wrt (<) (map day plan)
           \<and> (\<forall>e \<in> set plan. topics e \<noteq> [])
           \<and> concat (map topics plan) = selectTopics lower subj))
   \<and> (9007199254740992 \<le> days \<longrightarrow> generateCSStudyPlan lower subj days = None)"
proof -
  have a: "1 \<le> days \<and> days < 9007199254740992 \<longrightarrow>
        (\<exists>plan. generateCSStudyPlan lower subj days = Some plan
           \<and> plan \<noteq> []
           \<and> map day plan = [1 .. int (length plan)]
           \<and> sorted_wrt (<) (map day plan)
           \<and> (\<forall>e \<in> set plan. topics e \<noteq> [])
           \<and> concat (map topics plan) = selectTopics lower subj)"
    using generateCSStudyPlan_returns [of days lower subj] by (simp add: maxCounter_def)
  have b: "9007199254740992 \<le> days \<longrightarrow> generateCSStudyPlan lower subj days = None"
    using generateCSStudyPlan_diverges [of days lower subj] by (simp add: maxCounter_def)
  from selectTopics_first_match [of lower subj] selectTopics_length [of lower subj] a b
  show ?thesis
    by blast
qed

theorem plan_covers_topics_witness:
  "(1::int) \<le> 5 \<and> (5::int) < 9007199254740992
   \<and> selectTopics asciiLower ''Python'' =
       [''Python Basics - Syntax, data types, operators'',
        ''Control Flow - If/else, loops, functions'',
        ''Data Structures - Lists, tuples, dictionaries, sets'',
        ''Object-Oriented Programming - Classes, inheritance'',
        ''File Handling - Reading/writing files'',
        ''Exception Handling - Try/except blocks'',
        ''Modules and Packages - Imports, pip'',
        ''List Comprehensions - Advanced syntax'',
        ''Lambda Functions - Functional programming'',
        ''Decorators - Function wrappers'',
        ''Generators - Yield and iterators'',
        ''Multithreading - Concurrent execution'',
        ''Regular Expressions - Pattern matching'',
        ''Popular Libraries - NumPy, Pandas basics'']
   \<and> map_option (map day) (generateCSStudyPlan asciiLower ''Python'' 5) = Some [1, 2, 3, 4, 5]
   \<and> map_option (map (\<lambda>e. length (topics e))) (generateCSStudyPlan asciiLower ''Python'' 5)
       = Some [3, 3, 3, 3, 2]
   \<and> map_option (\<lambda>plan. concat (map topics plan)) (generateCSStudyPlan asciiLower ''Python'' 5)
       = Some (selectTopics asciiLower ''Python'')
   \<and> (9007199254740992::int) \<le> 18014398509481984
   \<and> generateCSStudyPlan asciiLower ''Python'' 18014398509481984 = None"
proof -
  have sel: "selectTopics asciiLower ''Python'' =
       [''Python Basics - Syntax, data types, operators'',
        ''Control Flow - If/else, loops, functions'',
        ''Data Structures - Lists, tuples, dictionaries, sets'',
        ''Object-Oriented Programming - Classes, inheritance'',
        ''File Handling - Reading/writing files'',
        ''Exception Handling - Try/except blocks'',
        ''Modules and Packages - Imports, pip'',
        ''List Comprehensions - Advanced syntax'',
        ''Lambda Functions - Functional programming'',
        ''Decorators - Function wrappers'',
        ''Generators - Yield and iterators'',
        ''Multithreading - Concurrent execution'',
        ''Regular Expressions - Pattern matching'',
        ''Popular Libraries - NumPy, Pandas basics'']"
    by code_simp
  have nums: "map_option (map day) (generateCSStudyPlan asciiLower ''Python'' 5) = Some [1, 2, 3, 4, 5]"
    by code_simp
  have lens: "map_option (map (\<lambda>e. length (topics e))) (generateCSStudyPlan asciiLower ''Python'' 5)
       = Some [3, 3, 3, 3, 2]"
    by code_simp
  have small: "(1::int) \<le> 5 \<and> (5::int) < 9007199254740992"
    by simp
  have big: "(9007199254740992::int) \<le> 18014398509481984"
    by simp
  from plan_covers_topics [of asciiLower "''Python''" 5] small
  obtain plan where "generateCSStudyPlan asciiLower ''Python'' 5 = Some plan"
    and "concat (map topics plan) = selectTopics asciiLower ''Python''"
    by blast
  then have cat: "map_option (\<lambda>plan. concat (map topics plan))
      (generateCSStudyPlan asciiLower ''Python'' 5) = Some (selectTopics asciiLower ''Python'')"
    by simp
  from plan_covers_topics [of asciiLower "''Python''" 18014398509481984] big
  have none: "generateCSStudyPlan asciiLower ''Python'' 18014398509481984 = None"
    by blast
  from small sel nums lens cat big none show ?thesis
    by blast
qed

end
